theory Spec2Isabelle
  imports
    Complex_Main
    "HOL-Library.Char_ord"
    "HOL-Library.List_Lexorder"
    "HOL-Library.Product_Lexorder"
    "HOL-Library.Multiset"
begin

section \<open>Tables\<close>

text \<open>
  The program of \<^verbatim>\<open>src/main.py\<close> works on pandas data frames. A cell is a
  number, a string or a missing value. Finite numbers are taken exactly (as rationals):
  rounding and overflow of the machine floats are outside the model. The two infinities
  are cells of their own, because a division by zero produces them; \<open>Null\<close> stands for
  both \<^verbatim>\<open>NaN\<close> and \<^verbatim>\<open>None\<close>, which pandas treats alike (\<^verbatim>\<open>isna\<close>).
\<close>

datatype cell = Num rat | PInf | NInf | Str string | Null

text \<open>
  A row carries its index label and one cell per column, in column order. A frame is
  rectangular in pandas; a position beyond the end of a row reads as missing, which is
  what pandas stores when a record is shorter than the header.
\<close>

type_synonym row = "nat \<times> cell list"

record frame =
  columns :: "string list"
  rows :: "row list"

datatype error = TypeError

fun cell_of :: "cell list \<Rightarrow> nat \<Rightarrow> cell" where
  "cell_of [] i = Null"
| "cell_of (c # cs) 0 = c"
| "cell_of (c # cs) (Suc i) = cell_of cs i"

fun col_pos :: "string \<Rightarrow> string list \<Rightarrow> nat option" where
  "col_pos c [] = None"
| "col_pos c (d # ds) = (if c = d then Some 0 else map_option Suc (col_pos c ds))"

text \<open>\<^verbatim>\<open>row[col]\<close> for a column name of the frame.\<close>

definition getc :: "string list \<Rightarrow> string \<Rightarrow> row \<Rightarrow> cell" where
  "getc cols c r = (case col_pos c cols of None \<Rightarrow> Null | Some i \<Rightarrow> cell_of (snd r) i)"

definition is_str :: "cell \<Rightarrow> bool" where
  "is_str c = (case c of Str s \<Rightarrow> True | _ \<Rightarrow> False)"


section \<open>Resolving the columns\<close>

text \<open>
  \<^verbatim>\<open>for col in [...]: if col in self.data.columns: return col\<close>, and \<^verbatim>\<open>None\<close>
  after the loop.
\<close>

definition first_present :: "string list \<Rightarrow> string list \<Rightarrow> string option" where
  "first_present cands cols = find (\<lambda>c. c \<in> set cols) cands"

definition country_candidates :: "string list" where
  "country_candidates = [''geo'', ''country'', ''Country'', ''GEO'', ''Country Name'']"

definition value_candidates :: "string list" where
  "value_candidates = [''OBS_VALUE'', ''value'', ''population'', ''Population'', ''Value'']"

definition year_candidates :: "string list" where
  "year_candidates = [''TIME_PERIOD'', ''time'', ''year'', ''Year'']"

text \<open>The list that \<^verbatim>\<open>filter_european_countries\<close> loops over (line 141).\<close>

definition filter_country_candidates :: "string list" where
  "filter_country_candidates = [''geo'', ''country'', ''Country'', ''GEO'']"

definition get_country_column :: "frame \<Rightarrow> string option" where
  "get_country_column df = first_present country_candidates (columns df)"

definition get_value_column :: "frame \<Rightarrow> string option" where
  "get_value_column df = first_present value_candidates (columns df)"

text \<open>
  The year column has no helper in the source: \<^verbatim>\<open>filter_by_year\<close>,
  \<^verbatim>\<open>calculate_growth_rate\<close> and the plots each repeat the same loop.
\<close>

definition get_year_column :: "frame \<Rightarrow> string option" where
  "get_year_column df = first_present year_candidates (columns df)"

section \<open>Cleaning\<close>

text \<open>
  \<^verbatim>\<open>drop_duplicates()\<close> keeps the first of several rows with equal cells (the
  index label does not count, and missing values compare equal); \<^verbatim>\<open>dropna()\<close>
  drops every row with a missing cell.
\<close>

fun drop_dups :: "cell list list \<Rightarrow> row list \<Rightarrow> row list" where
  "drop_dups seen [] = []"
| "drop_dups seen (r # rs) =
     (if snd r \<in> set seen then drop_dups seen rs else r # drop_dups (snd r # seen) rs)"

definition drop_duplicates :: "frame \<Rightarrow> frame" where
  "drop_duplicates df = df\<lparr>rows := drop_dups [] (rows df)\<rparr>"

definition dropna :: "frame \<Rightarrow> frame" where
  "dropna df = df\<lparr>rows := filter (\<lambda>r. Null \<notin> set (snd r)) (rows df)\<rparr>"

definition clean_data :: "frame \<Rightarrow> frame" where
  "clean_data df = dropna (drop_duplicates df)"

section \<open>Filters\<close>

text \<open>
  \<^verbatim>\<open>series >= bound\<close> and \<^verbatim>\<open>series <= bound\<close>, cell by cell: a missing value
  compares false, a string against a number raises \<^verbatim>\<open>TypeError\<close>.
\<close>

fun cell_ge :: "cell \<Rightarrow> int \<Rightarrow> error + bool" where
  "cell_ge (Num q) b = Inr (of_int b \<le> q)"
| "cell_ge PInf b = Inr True"
| "cell_ge NInf b = Inr False"
| "cell_ge Null b = Inr False"
| "cell_ge (Str s) b = Inl TypeError"

fun cell_le :: "cell \<Rightarrow> int \<Rightarrow> error + bool" where
  "cell_le (Num q) b = Inr (q \<le> of_int b)"
| "cell_le PInf b = Inr False"
| "cell_le NInf b = Inr True"
| "cell_le Null b = Inr False"
| "cell_le (Str s) b = Inl TypeError"

text \<open>
  \<^verbatim>\<open>df[mask]\<close> where the mask is computed for the whole column first: one cell
  that raises makes the whole selection raise.
\<close>

fun select_rows :: "(row \<Rightarrow> error + bool) \<Rightarrow> row list \<Rightarrow> error + row list" where
  "select_rows p [] = Inr []"
| "select_rows p (r # rs) =
     (case p r of
        Inl e \<Rightarrow> Inl e
      | Inr b \<Rightarrow>
          (case select_rows p rs of
             Inl e \<Rightarrow> Inl e
           | Inr rs' \<Rightarrow> Inr (if b then r # rs' else rs')))"

text \<open>
  \<^verbatim>\<open>if start_year: self.data = self.data[self.data[year_col] >= start_year]\<close>.
  The test is Python's truth value of the argument: it is false for \<^verbatim>\<open>None\<close> and
  for \<^verbatim>\<open>0\<close>.
\<close>

definition keep_from :: "int option \<Rightarrow> string list \<Rightarrow> string \<Rightarrow> row list \<Rightarrow> error + row list" where
  "keep_from start_year cols year_col rs =
     (case start_year of
        None \<Rightarrow> Inr rs
      | Some v \<Rightarrow>
          if v = 0 then Inr rs else select_rows (\<lambda>r. cell_ge (getc cols year_col r) v) rs)"

definition keep_until :: "int option \<Rightarrow> string list \<Rightarrow> string \<Rightarrow> row list \<Rightarrow> error + row list" where
  "keep_until end_year cols year_col rs =
     (case end_year of
        None \<Rightarrow> Inr rs
      | Some v \<Rightarrow>
          if v = 0 then Inr rs else select_rows (\<lambda>r. cell_le (getc cols year_col r) v) rs)"

definition filter_by_year :: "int option \<Rightarrow> int option \<Rightarrow> frame \<Rightarrow> error + frame" where
  "filter_by_year start_year end_year df =
     (case get_year_column df of
        None \<Rightarrow> Inr df
      | Some year_col \<Rightarrow>
          (case keep_from start_year (columns df) year_col (rows df) of
             Inl e \<Rightarrow> Inl e
           | Inr rs1 \<Rightarrow>
               (case keep_until end_year (columns df) year_col rs1 of
                  Inl e \<Rightarrow> Inl e
                | Inr rs2 \<Rightarrow> Inr (df\<lparr>rows := rs2\<rparr>))))"

definition european_countries :: "string list" where
  "european_countries =
     [''Austria'', ''Belgium'', ''Bulgaria'', ''Croatia'', ''Cyprus'',
      ''Czechia'', ''Denmark'', ''Estonia'', ''Finland'', ''France'',
      ''Germany'', ''Greece'', ''Hungary'', ''Ireland'', ''Italy'',
      ''Latvia'', ''Lithuania'', ''Luxembourg'', ''Malta'', ''Netherlands'',
      ''Poland'', ''Portugal'', ''Romania'', ''Slovakia'', ''Slovenia'',
      ''Spain'', ''Sweden'', ''United Kingdom'', ''Norway'', ''Switzerland'']"

text \<open>\<^verbatim>\<open>series.isin(names)\<close> for a list of strings.\<close>

definition isin :: "string list \<Rightarrow> cell \<Rightarrow> bool" where
  "isin names c = (case c of Str s \<Rightarrow> s \<in> set names | _ \<Rightarrow> False)"

text \<open>
  \<^verbatim>\<open>filter_european_countries\<close> with its local list of names as a parameter; the
  method itself is the instance at \<^const>\<open>european_countries\<close>.
\<close>

definition filter_countries :: "string list \<Rightarrow> frame \<Rightarrow> frame" where
  "filter_countries allowed df =
     (case first_present filter_country_candidates (columns df) of
        None \<Rightarrow> df
      | Some country_col \<Rightarrow>
          df\<lparr>rows := filter (\<lambda>r. isin allowed (getc (columns df) country_col r)) (rows df)\<rparr>)"

definition filter_european_countries :: "frame \<Rightarrow> frame" where
  "filter_european_countries df = filter_countries european_countries df"


section \<open>Sorting\<close>

text \<open>
  The order of the cells of one column: numbers by value, strings by code point, as
  Python compares them. Where one key column mixes the two, the multi-column sort puts
  the numbers first. Missing values are not keys: they go to the end.
\<close>

type_synonym skey = "nat \<times> rat \<times> string"

fun cell_key :: "cell \<Rightarrow> skey" where
  "cell_key NInf = (0, 0, [])"
| "cell_key (Num q) = (1, q, [])"
| "cell_key PInf = (2, 0, [])"
| "cell_key (Str s) = (3, 0, s)"
| "cell_key Null = (4, 0, [])"

text \<open>The key of the negated value (\<^verbatim>\<open>arr = -arr\<close> in \<^verbatim>\<open>nlargest\<close>).\<close>

fun neg_key :: "cell \<Rightarrow> skey" where
  "neg_key PInf = (0, 0, [])"
| "neg_key (Num q) = (1, - q, [])"
| "neg_key NInf = (2, 0, [])"
| "neg_key (Str s) = (3, 0, s)"
| "neg_key Null = (4, 0, [])"

text \<open>
  \<^verbatim>\<open>sort_values(col)\<close> on one column and the slow path of \<^verbatim>\<open>nlargest\<close> sort
  with numpy's default \<^verbatim>\<open>quicksort\<close>, which is not promised to keep rows with equal
  keys in their order. The source does not fix the algorithm, so it is a parameter here;
  \<open>sorts\<close> is what every choice guarantees, \<open>stable\<close> what a stable one adds.
\<close>

type_synonym sorter = "(row \<Rightarrow> skey) \<Rightarrow> row list \<Rightarrow> row list"

definition sorts :: "sorter \<Rightarrow> bool" where
  "sorts srt = (\<forall>f xs. mset (srt f xs) = mset xs \<and> sorted (map f (srt f xs)))"

definition stable :: "sorter \<Rightarrow> bool" where
  "stable srt = (\<forall>f xs k. filter (\<lambda>x. f x = k) (srt f xs) = filter (\<lambda>x. f x = k) xs)"

definition is_numeric :: "cell \<Rightarrow> bool" where
  "is_numeric c = (case c of Num q \<Rightarrow> True | PInf \<Rightarrow> True | NInf \<Rightarrow> True | _ \<Rightarrow> False)"

text \<open>
  \<^verbatim>\<open>df.sort_values(col)\<close>: the rows with a key are sorted, the rows without one
  follow in their order. Comparing a string with a number raises \<^verbatim>\<open>TypeError\<close>.
\<close>

definition sort_values1 :: "sorter \<Rightarrow> string \<Rightarrow> frame \<Rightarrow> error + frame" where
  "sort_values1 srt c df =
     (let k = getc (columns df) c in
      if list_ex (\<lambda>r. is_str (k r)) (rows df) \<and> list_ex (\<lambda>r. is_numeric (k r)) (rows df)
      then Inl TypeError
      else Inr (df\<lparr>rows := srt (\<lambda>r. cell_key (k r)) (filter (\<lambda>r. k r \<noteq> Null) (rows df))
                              @ filter (\<lambda>r. k r = Null) (rows df)\<rparr>))"

text \<open>
  \<^verbatim>\<open>series.sort_values(ascending=False)\<close>: pandas reverses the keyed rows, sorts
  them ascending and reverses the result.
\<close>

definition sort_desc :: "sorter \<Rightarrow> (row \<Rightarrow> cell) \<Rightarrow> row list \<Rightarrow> row list" where
  "sort_desc srt k rs =
     rev (srt (\<lambda>r. cell_key (k r)) (rev (filter (\<lambda>r. k r \<noteq> Null) rs)))
     @ filter (\<lambda>r. k r = Null) rs"

section \<open>Ranking\<close>

text \<open>
  \<^verbatim>\<open>df.nlargest(n, col)\<close>, as pandas computes it: a column of dtype object (one that
  holds a string) is refused; \<^verbatim>\<open>n <= 0\<close> selects nothing; \<^verbatim>\<open>n >= len\<close> sorts the
  whole column in descending order; otherwise the values present are sorted stably by
  their negation, and the rows without a value fill up what is left of \<open>n\<close>.
\<close>

definition nlargest :: "sorter \<Rightarrow> int \<Rightarrow> string \<Rightarrow> frame \<Rightarrow> error + frame" where
  "nlargest srt n c df =
     (let k = getc (columns df) c in
      if list_ex (\<lambda>r. is_str (k r)) (rows df) then Inl TypeError
      else if n \<le> 0 then Inr (df\<lparr>rows := []\<rparr>)
      else if int (length (rows df)) \<le> n
        then Inr (df\<lparr>rows := take (nat n) (sort_desc srt k (rows df))\<rparr>)
      else Inr (df\<lparr>rows := take (nat n)
                  (sort_key (\<lambda>r. neg_key (k r)) (filter (\<lambda>r. k r \<noteq> Null) (rows df))
                   @ filter (\<lambda>r. k r = Null) (rows df))\<rparr>))"

text \<open>\<^verbatim>\<open>df[[a, b]]\<close>.\<close>

definition project :: "string list \<Rightarrow> frame \<Rightarrow> frame" where
  "project cs df =
     \<lparr>columns = cs, rows = map (\<lambda>r. (fst r, map (\<lambda>c. getc (columns df) c r) cs)) (rows df)\<rparr>"

text \<open>\<^verbatim>\<open>DataAnalyzer.find_top_countries\<close>; the result \<open>None\<close> is Python's \<^verbatim>\<open>None\<close>.\<close>

definition find_top_countries :: "sorter \<Rightarrow> int \<Rightarrow> frame \<Rightarrow> error + frame option" where
  "find_top_countries srt n df =
     (case (get_country_column df, get_value_column df) of
        (Some country_col, Some value_col) \<Rightarrow>
          (case nlargest srt n value_col df of
             Inl e \<Rightarrow> Inl e
           | Inr top_df \<Rightarrow> Inr (Some (project [country_col, value_col] top_df)))
      | _ \<Rightarrow> Inr None)"

text \<open>
  \<^verbatim>\<open>groupby(col).tail(1)\<close>: of every group the last row, in the order of the frame;
  rows without a group key belong to no group.
\<close>

fun groupby_tail1 :: "(row \<Rightarrow> cell) \<Rightarrow> row list \<Rightarrow> row list" where
  "groupby_tail1 k [] = []"
| "groupby_tail1 k (r # rs) =
     (if k r \<noteq> Null \<and> k r \<notin> set (map k rs) then r # groupby_tail1 k rs
      else groupby_tail1 k rs)"

text \<open>
  The table that \<^verbatim>\<open>DataVisualizer.plot_top_countries\<close> draws (lines 306 to 325): the
  latest row of every country, then the \<open>n\<close> largest values. \<open>None\<close> is the branch that
  only prints a message.
\<close>

definition latest_data :: "sorter \<Rightarrow> string \<Rightarrow> frame \<Rightarrow> error + frame" where
  "latest_data srt country_col df =
     (case get_year_column df of
        Some year_col \<Rightarrow>
          (case sort_values1 srt year_col df of
             Inl e \<Rightarrow> Inl e
           | Inr sorted_df \<Rightarrow>
               Inr (sorted_df\<lparr>rows := groupby_tail1 (getc (columns df) country_col)
                                        (rows sorted_df)\<rparr>))
      | None \<Rightarrow> Inr df)"

definition plot_top_countries :: "sorter \<Rightarrow> int \<Rightarrow> frame \<Rightarrow> error + frame option" where
  "plot_top_countries srt n df =
     (case (get_country_column df, get_value_column df) of
        (Some country_col, Some value_col) \<Rightarrow>
          (case latest_data srt country_col df of
             Inl e \<Rightarrow> Inl e
           | Inr latest \<Rightarrow>
               (case nlargest srt n value_col latest of
                  Inl e \<Rightarrow> Inl e
                | Inr top_n \<Rightarrow> Inr (Some top_n)))
      | _ \<Rightarrow> Inr None)"

section \<open>Arithmetic on cells\<close>


fun fsub :: "cell \<Rightarrow> cell \<Rightarrow> cell" where
  "fsub (Num a) (Num b) = Num (a - b)"
| "fsub PInf (Num b) = PInf"
| "fsub (Num a) NInf = PInf"
| "fsub PInf NInf = PInf"
| "fsub NInf (Num b) = NInf"
| "fsub (Num a) PInf = NInf"
| "fsub NInf PInf = NInf"
| "fsub _ _ = Null"

fun fmul :: "cell \<Rightarrow> cell \<Rightarrow> cell" where
  "fmul (Num a) (Num b) = Num (a * b)"
| "fmul PInf (Num b) = (if 0 < b then PInf else if b < 0 then NInf else Null)"
| "fmul NInf (Num b) = (if 0 < b then NInf else if b < 0 then PInf else Null)"
| "fmul (Num a) PInf = (if 0 < a then PInf else if a < 0 then NInf else Null)"
| "fmul (Num a) NInf = (if 0 < a then NInf else if a < 0 then PInf else Null)"
| "fmul PInf PInf = PInf"
| "fmul NInf NInf = PInf"
| "fmul PInf NInf = NInf"
| "fmul NInf PInf = NInf"
| "fmul _ _ = Null"

text \<open>
  Division does not raise in numpy: a finite value over zero is an infinity of its sign,
  zero over zero is \<^verbatim>\<open>NaN\<close>. (The zero of the model is the positive zero.)
\<close>

fun fdiv :: "cell \<Rightarrow> cell \<Rightarrow> cell" where
  "fdiv (Num a) (Num b) =
     (if b \<noteq> 0 then Num (a / b)
      else if 0 < a then PInf else if a < 0 then NInf else Null)"
| "fdiv PInf (Num b) = (if 0 \<le> b then PInf else NInf)"
| "fdiv NInf (Num b) = (if 0 \<le> b then NInf else PInf)"
| "fdiv (Num a) PInf = Num 0"
| "fdiv (Num a) NInf = Num 0"
| "fdiv _ _ = Null"

section \<open>Aggregation\<close>










section \<open>Growth rates\<close>


text \<open>A row as long as the header, missing cells filled in.\<close>

definition pad :: "nat \<Rightarrow> cell list \<Rightarrow> cell list" where
  "pad n cs = take n (cs @ replicate n Null)"


text \<open>
  \<^verbatim>\<open>DataAnalyzer.calculate_growth_rate\<close>. \<^verbatim>\<open>sort_values\<close> on two columns is a
  stable lexicographic sort, missing keys last. Dividing a string raises
  \<^verbatim>\<open>TypeError\<close>.
\<close>

definition sort_by_country_year :: "string list \<Rightarrow> string \<Rightarrow> string \<Rightarrow> row list \<Rightarrow> row list" where
  "sort_by_country_year cols country_col year_col rs =
     sort_key (\<lambda>r. (cell_key (getc cols country_col r), cell_key (getc cols year_col r))) rs"


section \<open>The growth rate as the specification words it\<close>

text \<open>
  Along the sorted rows: a row whose predecessor belongs to the same entity gets
  \<open>(value - previous) / previous * 100\<close>, every other row gets the missing value. Rows
  without an entity belong to no run.
\<close>

definition growth_formula :: "cell \<Rightarrow> cell \<Rightarrow> cell" where
  "growth_formula v p = fmul (fdiv (fsub v p) p) (Num 100)"

fun spec_growth :: "(cell \<times> cell) option \<Rightarrow> (cell \<times> cell) list \<Rightarrow> cell list" where
  "spec_growth prev [] = []"
| "spec_growth prev ((e, v) # rest) =
     (case prev of
        None \<Rightarrow> Null
      | Some (e', v') \<Rightarrow> if e' = e \<and> e \<noteq> Null then growth_formula v v' else Null)
     # spec_growth (Some (e, v)) rest"

section \<open>The values of one group\<close>



subsection \<open>The invariant of the running growth computation\<close>


section \<open>What the bounds keep\<close>





section \<open>Example tables\<close>

definition world_table :: frame where
  "world_table =
     \<lparr>columns = [''Country Name'', ''Year'', ''Value''],
      rows = [(0, [Str ''Brazil'', Num 2000, Num 5]), (1, [Str ''France'', Num 2000, Num 7])]\<rparr>"

definition france_table :: frame where
  "france_table =
     \<lparr>columns = [''geo'', ''year'', ''value''],
      rows = [(0, [Str ''France'', Num 2000, Num 5]), (1, [Str ''France'', Num 2001, Num 6])]\<rparr>"




definition mixed_year :: frame where
  "mixed_year =
     \<lparr>columns = [''geo'', ''year'', ''value''],
      rows = [(0, [Str ''France'', Num 2000, Num 5]),
              (1, [Str ''Brazil'', Str ''n/a'', Num 7])]\<rparr>"

section \<open>Cleaning is idempotent\<close>

lemma drop_dups_notin: "r \<in> set (drop_dups seen rs) \<Longrightarrow> snd r \<notin> set seen"
proof (induction rs arbitrary: seen)
  case Nil
  then show ?case by simp
next
  case (Cons x rs)
  show ?case
  proof (cases "snd x \<in> set seen")
    case True
    with Cons show ?thesis by simp
  next
    case False
    with Cons.prems have "r = x \<or> r \<in> set (drop_dups (snd x # seen) rs)" by simp
    then show ?thesis
    proof
      assume "r = x" with False show ?thesis by simp
    next
      assume "r \<in> set (drop_dups (snd x # seen) rs)"
      from Cons.IH [OF this] show ?thesis by simp
    qed
  qed
qed

lemma drop_dups_fresh: "set (map snd (drop_dups seen rs)) \<inter> set seen = {}"
  using drop_dups_notin by fastforce

lemma drop_dups_distinct: "distinct (map snd (drop_dups seen rs))"
proof (induction rs arbitrary: seen)
  case Nil
  show ?case by simp
next
  case (Cons r rs)
  have "snd r \<notin> set (map snd (drop_dups (snd r # seen) rs))"
    using drop_dups_fresh [of "snd r # seen" rs] by auto
  with Cons show ?case by simp
qed

lemma drop_dups_id:
  "distinct (map snd rs) \<Longrightarrow> set (map snd rs) \<inter> set seen = {} \<Longrightarrow> drop_dups seen rs = rs"
  by (induction rs arbitrary: seen) auto

text \<open>
  C7. Cleaning a cleaned table changes nothing: after the first pass no two rows have
  equal cells and no row has a missing cell, so the second \<^verbatim>\<open>drop_duplicates\<close> and
  the second \<^verbatim>\<open>dropna\<close> both keep every row.
\<close>

theorem clean_data_idempotent: "clean_data (clean_data df) = clean_data df"
proof -
  let ?P = "\<lambda>r::row. Null \<notin> set (snd r)"
  let ?rs = "filter ?P (drop_dups [] (rows df))"
  have "distinct (map snd ?rs)"
    by (rule distinct_map_filter) (rule drop_dups_distinct)
  then have "drop_dups [] ?rs = ?rs"
    by (rule drop_dups_id) simp
  then show ?thesis
    by (simp add: clean_data_def dropna_def drop_duplicates_def)
qed

section \<open>The candidate lists of the country column\<close>

text \<open>
  C4. On a table whose country column is called \<^verbatim>\<open>Country Name\<close> the helper
  \<^verbatim>\<open>_get_country_column\<close> resolves the column, but \<^verbatim>\<open>filter_european_countries\<close>
  loops over a list without that name, finds no column and returns the table with the
  row of Brazil still in it.
\<close>

theorem filter_misses_country_name:
  "get_country_column world_table = Some ''Country Name'' \<and>
   first_present filter_country_candidates (columns world_table) = None \<and>
   filter_european_countries world_table = world_table"
  by (simp add: world_table_def get_country_column_def first_present_def
      country_candidates_def filter_european_countries_def filter_countries_def
      filter_country_candidates_def)

section \<open>The year filter\<close>

text \<open>
  C8. A bound of \<^verbatim>\<open>0\<close> is not applied: with \<^verbatim>\<open>end_year = 0\<close> the rows of the
  years 2000 and 2001 are both kept, although neither year is at most 0.
\<close>

theorem zero_end_year_keeps_all:
  "filter_by_year None (Some 0) france_table = Inr france_table"
  by (simp add: france_table_def filter_by_year_def get_year_column_def first_present_def
      year_candidates_def keep_from_def keep_until_def)

section \<open>The two filters commute\<close>


lemma cell_ge_total: "\<not> is_str c \<Longrightarrow> \<exists>b. cell_ge c v = Inr b"
  by (cases c) (auto simp: is_str_def)

lemma cell_le_total: "\<not> is_str c \<Longrightarrow> \<exists>b. cell_le c v = Inr b"
  by (cases c) (auto simp: is_str_def)





lemma filter_countries_columns [simp]: "columns (filter_countries A df) = columns df"
  by (simp add: filter_countries_def split: option.splits)

lemma filter_countries_year [simp]: "get_year_column (filter_countries A df) = get_year_column df"
  by (simp add: get_year_column_def)




text \<open>
  C6, the counterexample: a year that is a string, in a row of another country. The
  country filter removes the row and the year filter then compares numbers only; the
  year filter applied first compares the string with the bound and raises
  \<^verbatim>\<open>TypeError\<close>, so the other order has no result.
\<close>

theorem string_year_breaks_commutation:
  "filter_by_year (Some 2000) None (filter_european_countries mixed_year)
     = Inr (mixed_year\<lparr>rows := [(0, [Str ''France'', Num 2000, Num 5])]\<rparr>) \<and>
   filter_by_year (Some 2000) None mixed_year = Inl TypeError \<and>
   map_sum id filter_european_countries (filter_by_year (Some 2000) None mixed_year) = Inl TypeError"
  by code_simp

section \<open>Ranking: what \<open>n\<close> selects\<close>

lemma sorts_sort_key: "sorts sort_key"
  by (simp add: sorts_def)

lemma stable_sort_key: "stable sort_key"
  by (simp add: stable_def sort_key_stable)

lemma mset_sort_desc: "sorts srt \<Longrightarrow> mset (sort_desc srt k rs) = mset rs"
proof -
  assume "sorts srt"
  then have "mset (srt (\<lambda>r. cell_key (k r)) (rev (filter (\<lambda>r. k r \<noteq> Null) rs)))
     = mset (filter (\<lambda>r. k r \<noteq> Null) rs)"
    by (simp add: sorts_def)
  then have "mset (sort_desc srt k rs) = mset (filter (\<lambda>r. k r \<noteq> Null) rs) + mset (filter (\<lambda>r. \<not> k r \<noteq> Null) rs)"
    by (simp add: sort_desc_def)
  then show ?thesis by (simp only: mset_filter multiset_partition [symmetric])
qed

lemma length_sort_desc: "sorts srt \<Longrightarrow> length (sort_desc srt k rs) = length rs"
  using mset_sort_desc [of srt k rs] by (metis size_mset)

lemma nlargest_nonpositive:
  "\<not> list_ex (\<lambda>r. is_str (getc (columns df) c r)) (rows df) \<Longrightarrow> n \<le> 0 \<Longrightarrow>
   nlargest srt n c df = Inr (df\<lparr>rows := []\<rparr>)"
  by (simp add: nlargest_def)

lemma nlargest_all:
  assumes "sorts srt" "\<not> list_ex (\<lambda>r. is_str (getc (columns df) c r)) (rows df)"
    "0 < n" "int (length (rows df)) \<le> n"
  shows "nlargest srt n c df = Inr (df\<lparr>rows := sort_desc srt (getc (columns df) c) (rows df)\<rparr>)"
proof -
  have "length (sort_desc srt (getc (columns df) c) (rows df)) \<le> nat n"
    using assms(1,4) by (simp add: length_sort_desc)
  then show ?thesis using assms(2,3,4) by (simp add: nlargest_def Let_def)
qed

lemma project_rows:
  "mset (rows (project cs (df\<lparr>rows := rs\<rparr>))) =
   image_mset (\<lambda>r. (fst r, map (\<lambda>c. getc (columns df) c r) cs)) (mset rs)"
  by (simp add: project_def)

lemma france_resolves:
  "get_country_column france_table = Some ''geo''"
  "get_value_column france_table = Some ''value''"
  "\<not> list_ex (\<lambda>r. is_str (getc (columns france_table) ''value'' r)) (rows france_table)"
  by (simp_all add: get_country_column_def get_value_column_def
      first_present_def country_candidates_def value_candidates_def france_table_def
      getc_def is_str_def)

text \<open>
  C3, as the code has it. No value of \<open>n\<close> is refused: for \<open>n \<le> 0\<close> the result is the
  table of the two columns with no rows, and for \<open>n\<close> at least the number of rows it is
  all the rows of the table. (The columns are resolved and the value column holds no
  string; a string there raises \<^verbatim>\<open>TypeError\<close> for every \<open>n\<close>.)
\<close>

theorem top_n_bounds:
  assumes "sorts srt"
    and "get_country_column df = Some cc"
    and "get_value_column df = Some vc"
    and "\<not> list_ex (\<lambda>r. is_str (getc (columns df) vc r)) (rows df)"
  shows "(n \<le> 0 \<longrightarrow>
            find_top_countries srt n df = Inr (Some \<lparr>columns = [cc, vc], rows = []\<rparr>)) \<and>
         (int (length (rows df)) \<le> n \<longrightarrow>
            (\<exists>t. find_top_countries srt n df = Inr (Some t) \<and> columns t = [cc, vc] \<and>
                 mset (rows t) = mset (rows (project [cc, vc] df))))"
proof (intro conjI impI)
  assume "n \<le> 0"
  then show "find_top_countries srt n df = Inr (Some \<lparr>columns = [cc, vc], rows = []\<rparr>)"
    using assms(2,3,4) by (simp add: find_top_countries_def nlargest_nonpositive project_def)
next
  assume big: "int (length (rows df)) \<le> n"
  show "\<exists>t. find_top_countries srt n df = Inr (Some t) \<and> columns t = [cc, vc] \<and>
            mset (rows t) = mset (rows (project [cc, vc] df))"
  proof (cases "n \<le> 0")
    case True
    with big have "length (rows df) = 0" by linarith
    then have "rows df = []" by simp
    with True assms(2,3,4) show ?thesis
      by (simp add: find_top_countries_def nlargest_nonpositive project_def)
  next
    case False
    then have pos: "0 < n" by simp
    have nl: "nlargest srt n vc df = Inr (df\<lparr>rows := sort_desc srt (getc (columns df) vc) (rows df)\<rparr>)"
      using assms(1,4) pos big by (rule nlargest_all)
    have "mset (rows (project [cc, vc] (df\<lparr>rows := sort_desc srt (getc (columns df) vc) (rows df)\<rparr>)))
        = mset (rows (project [cc, vc] df))"
      using project_rows [where cs = "[cc, vc]" and df = df and rs = "sort_desc srt (getc (columns df) vc) (rows df)"]
        project_rows [where cs = "[cc, vc]" and df = df and rs = "rows df"] mset_sort_desc [OF assms(1)]
      by simp
    then show ?thesis
      using assms(2,3) by (simp add: find_top_countries_def nl) (simp add: project_def)
  qed
qed

theorem top_n_bounds_witness:
  "sorts sort_key \<and> get_country_column france_table = Some ''geo'' \<and>
   get_value_column france_table = Some ''value'' \<and>
   \<not> list_ex (\<lambda>r. is_str (getc (columns france_table) ''value'' r)) (rows france_table) \<and>
   find_top_countries sort_key (-1) france_table = Inr (Some \<lparr>columns = [''geo'', ''value''], rows = []\<rparr>) \<and>
   (\<exists>t. find_top_countries sort_key 10 france_table = Inr (Some t) \<and> columns t = [''geo'', ''value''] \<and>
        mset (rows t) = mset (rows (project [''geo'', ''value''] france_table)))"
  using top_n_bounds [OF sorts_sort_key france_resolves, of "-1"]
    top_n_bounds [OF sorts_sort_key france_resolves, of 10]
    sorts_sort_key france_resolves
  by (simp add: france_table_def)

text \<open>
  C3, the counterexample: \<open>n = 0\<close> returns a table, it does not signal an error.
\<close>

theorem top_n_zero_returns_empty:
  "find_top_countries sort_key 0 france_table = Inr (Some \<lparr>columns = [''geo'', ''value''], rows = []\<rparr>)"
  by (simp add: find_top_countries_def get_country_column_def get_value_column_def
      first_present_def country_candidates_def value_candidates_def france_table_def
      nlargest_def getc_def is_str_def project_def)

section \<open>Aggregation by country\<close>




















section \<open>The growth computation follows the formula\<close>




lemma fmul_Null [simp]: "fmul Null c = Null"
  by (cases c) simp_all





lemma set_sort_by_country_year [simp]:
  "set (sort_by_country_year cols cc yc rs) = set rs"
  by (simp add: sort_by_country_year_def)


lemma length_sort_by_country_year [simp]:
  "length (sort_by_country_year cols cc yc rs) = length rs"
  by (simp add: sort_by_country_year_def)




lemma length_spec_growth [simp]: "length (spec_growth prev kvs) = length kvs"
  by (induction kvs arbitrary: prev) auto



lemma cell_of_nth: "cell_of cs i = (if i < length cs then cs ! i else Null)"
  by (induction cs i rule: cell_of.induct) auto

lemma length_pad [simp]: "length (pad n cs) = n"
  by (simp add: pad_def)

lemma cell_of_pad: "cell_of (pad n cs) i = (if i < n then cell_of cs i else Null)"
  by (auto simp: cell_of_nth pad_def nth_append)


lemma col_pos_None: "col_pos c cols = None \<longleftrightarrow> c \<notin> set cols"
  by (induction cols) auto













section \<open>Growth rates: the sorted rows and the formula\<close>




section \<open>Growth after a value of zero\<close>





end
